theory Spec2Isabelle
  imports Complex_Main "HOL-Library.Word" "HOL-Library.Multiset" "HOL-Library.AList"
begin

section \<open>JavaScript values used by the two pages\<close>

text \<open>
  A JavaScript string is a sequence of UTF-16 code units. The regular expression of
  \<^verbatim>\<open>getContentPreferenceData\<close> has no \<^verbatim>\<open>u\<close> flag, so it works on code units, and an
  emoji outside the Basic Multilingual Plane is two of them (a surrogate pair).
\<close>

type_synonym jsstring = "16 word list"

text \<open>An ASCII literal of the source, as code units.\<close>

definition js :: "string \<Rightarrow> jsstring" where
  "js s = map of_char s"

text \<open>\<^verbatim>\<open>!s\<close> on a string: only the empty string is falsy.\<close>

definition truthy :: "jsstring \<Rightarrow> bool" where
  "truthy s = (s \<noteq> [])"

text \<open>\<^verbatim>\<open>s || null\<close>: the blank string becomes \<^verbatim>\<open>null\<close>.\<close>

definition or_null :: "jsstring \<Rightarrow> jsstring option" where
  "or_null s = (if truthy s then Some s else None)"

text \<open>
  Awaiting a request of the store client either yields a response object or throws.
  The response object carries \<^verbatim>\<open>data\<close>, \<^verbatim>\<open>count\<close> and \<^verbatim>\<open>error\<close>, each of which may be
  \<^verbatim>\<open>null\<close>.
\<close>

datatype 'a promise = Fulfilled 'a | Rejected

record 'a response =
  data :: "'a option"
  count :: "nat option"
  error :: "string option"

text \<open>A toast: its title and whether its variant is \<^verbatim>\<open>"destructive"\<close>.\<close>

record toast =
  title :: string
  destructive :: bool

section \<open>Survey.tsx\<close>

record formData =
  name :: jsstring
  age_group :: jsstring
  usage_duration :: jsstring
  usage_reason :: "jsstring list"
  content_preference :: "jsstring list"
  regular_bots_or_channels :: jsstring
  recommend_telegram :: jsstring
  improvement_suggestions :: jsstring
  other_usage_reason :: jsstring

text \<open>The object handed to \<^verbatim>\<open>insert\<close>.\<close>

record survey_row =
  name :: "jsstring option"
  age_group :: jsstring
  usage_duration :: jsstring
  usage_reason :: "jsstring list"
  content_preference :: "jsstring list"
  regular_bots_or_channels :: "jsstring option"
  recommend_telegram :: jsstring
  improvement_suggestions :: "jsstring option"

record survey =
  formData :: formData
  isSubmitting :: bool

text \<open>The value of \<^verbatim>\<open>useState\<close>'s initial form, which is also the value of the reset.\<close>

definition emptyForm :: formData where
  "emptyForm = \<lparr> formData.name = [], formData.age_group = [], formData.usage_duration = [],
     formData.usage_reason = [], formData.content_preference = [],
     formData.regular_bots_or_channels = [], formData.recommend_telegram = [],
     formData.improvement_suggestions = [], other_usage_reason = [] \<rparr>"

definition Other :: jsstring where
  "Other = js ''Other''"

text \<open>
  \<^verbatim>\<open>handleMultipleChoice\<close>: a checkbox toggles its value in the list; a new value goes last.
\<close>

definition toggle :: "jsstring \<Rightarrow> jsstring list \<Rightarrow> jsstring list" where
  "toggle v xs = (if v \<in> set xs then filter (\<lambda>item. item \<noteq> v) xs else xs @ [v])"

datatype field = Usage_reason | Content_preference

definition handleMultipleChoice :: "jsstring \<Rightarrow> field \<Rightarrow> survey \<Rightarrow> survey" where
  "handleMultipleChoice v f s =
     (case f of
        Usage_reason \<Rightarrow>
          s\<lparr>formData := (formData s)\<lparr>formData.usage_reason :=
               toggle v (formData.usage_reason (formData s))\<rparr>\<rparr>
      | Content_preference \<Rightarrow>
          s\<lparr>formData := (formData s)\<lparr>formData.content_preference :=
               toggle v (formData.content_preference (formData s))\<rparr>\<rparr>)"

text \<open>The constant \<^verbatim>\<open>finalUsageReasons\<close> of \<^verbatim>\<open>handleSubmit\<close>.\<close>

definition finalUsageReasons :: "formData \<Rightarrow> jsstring list" where
  "finalUsageReasons fd =
     (if Other \<in> set (formData.usage_reason fd) \<and> truthy (other_usage_reason fd)
      then filter (\<lambda>r. r \<noteq> Other) (formData.usage_reason fd) @ [other_usage_reason fd]
      else formData.usage_reason fd)"

definition insert_payload :: "formData \<Rightarrow> survey_row" where
  "insert_payload fd =
     \<lparr> name = or_null (formData.name fd),
       age_group = formData.age_group fd,
       usage_duration = formData.usage_duration fd,
       usage_reason = finalUsageReasons fd,
       content_preference = formData.content_preference fd,
       regular_bots_or_channels = or_null (formData.regular_bots_or_channels fd),
       recommend_telegram = formData.recommend_telegram fd,
       improvement_suggestions = or_null (formData.improvement_suggestions fd) \<rparr>"

definition toast_missing_fields :: toast where
  "toast_missing_fields = \<lparr> title = ''Missing fields'', destructive = True \<rparr>"

definition toast_missing_selections :: toast where
  "toast_missing_selections = \<lparr> title = ''Missing selections'', destructive = True \<rparr>"

definition toast_thank_you :: toast where
  "toast_thank_you =
     \<lparr> title = ''Thank you for submitting the survey!'', destructive = False \<rparr>"

definition toast_submission_failed :: toast where
  "toast_submission_failed = \<lparr> title = ''Submission failed'', destructive = True \<rparr>"

text \<open>
  What one run of an event handler leaves behind: the component state after it, the
  requests it sent to the store (in order) and the toasts it raised (in order). For the
  survey page a request is the row handed to \<^verbatim>\<open>insert\<close>.
\<close>

record ('s, 'q) outcome =
  after :: 's
  issued :: "'q list"
  toasts :: "toast list"

text \<open>
  \<^verbatim>\<open>handleSubmit\<close>. The store is a parameter: what awaiting \<^verbatim>\<open>insert\<close> of a row gives.
  The two early returns leave the state as it is; past them \<^verbatim>\<open>isSubmitting\<close> is set, and
  cleared again by \<^verbatim>\<open>finally\<close>. A response with an \<^verbatim>\<open>error\<close> is thrown, and is caught
  together with a rejected promise.
\<close>

definition handleSubmit ::
  "survey \<Rightarrow> (survey_row \<Rightarrow> unit response promise) \<Rightarrow> (survey, survey_row) outcome" where
  "handleSubmit s insert_req =
     (let fd = formData s in
      if \<not> truthy (formData.age_group fd) \<or> \<not> truthy (formData.usage_duration fd)
           \<or> \<not> truthy (formData.recommend_telegram fd)
      then \<lparr> after = s, issued = [], toasts = [toast_missing_fields] \<rparr>
      else if length (formData.usage_reason fd) = 0
           \<or> length (formData.content_preference fd) = 0
      then \<lparr> after = s, issued = [], toasts = [toast_missing_selections] \<rparr>
      else
        (let row = insert_payload fd in
         case insert_req row of
           Fulfilled r \<Rightarrow>
             (case error r of
                Some e \<Rightarrow>
                  \<lparr> after = s\<lparr>isSubmitting := False\<rparr>, issued = [row],
                    toasts = [toast_submission_failed] \<rparr>
              | None \<Rightarrow>
                  \<lparr> after = s\<lparr>formData := emptyForm, isSubmitting := False\<rparr>,
                    issued = [row], toasts = [toast_thank_you] \<rparr>)
         | Rejected \<Rightarrow>
             \<lparr> after = s\<lparr>isSubmitting := False\<rparr>, issued = [row],
               toasts = [toast_submission_failed] \<rparr>))"

text \<open>The draft passes both validation checks of \<^verbatim>\<open>handleSubmit\<close>.\<close>

definition complete :: "formData \<Rightarrow> bool" where
  "complete fd \<longleftrightarrow>
     formData.age_group fd \<noteq> [] \<and> formData.usage_duration fd \<noteq> []
     \<and> formData.recommend_telegram fd \<noteq> []
     \<and> formData.usage_reason fd \<noteq> [] \<and> formData.content_preference fd \<noteq> []"

text \<open>The store accepted the row: the promise is fulfilled with no \<^verbatim>\<open>error\<close>.\<close>

definition accepted :: "'a response promise \<Rightarrow> bool" where
  "accepted p = (case p of Fulfilled r \<Rightarrow> error r = None | Rejected \<Rightarrow> False)"

section \<open>Dashboard.tsx: state and fetching\<close>

text \<open>The interface \<^verbatim>\<open>SurveyResponse\<close>: the inserted row with the store's two columns.\<close>

record SurveyResponse = survey_row +
  id :: jsstring
  submitted_at :: jsstring

record dashboard =
  responses :: "SurveyResponse list"
  currentPage :: int
  totalResponses :: nat
  loading :: bool

definition responsesPerPage :: nat where
  "responsesPerPage = 10"

text \<open>
  The two requests \<^verbatim>\<open>fetchResponses\<close> builds on the table \<^verbatim>\<open>telegram_survey\<close>: the
  head-only exact count, and the select with its \<^verbatim>\<open>order\<close> column, its \<^verbatim>\<open>ascending\<close>
  flag and the two arguments of \<^verbatim>\<open>range\<close>.
\<close>

datatype request =
  CountQuery
| RangeQuery (order_column: string) (ascending: bool) (range_from: int) (range_to: int)

type_synonym store = "request \<Rightarrow> SurveyResponse list response promise"

definition toast_error_loading :: toast where
  "toast_error_loading = \<lparr> title = ''Error loading data'', destructive = True \<rparr>"

text \<open>\<^verbatim>\<open>count || 0\<close> and \<^verbatim>\<open>data || []\<close>.\<close>

definition or_zero :: "nat option \<Rightarrow> nat" where
  "or_zero c = (case c of None \<Rightarrow> 0 | Some n \<Rightarrow> n)"

definition or_empty :: "'a list option \<Rightarrow> 'a list" where
  "or_empty d = (case d of None \<Rightarrow> [] | Some xs \<Rightarrow> xs)"

definition page_query :: "int \<Rightarrow> request" where
  "page_query p =
     RangeQuery ''submitted_at'' False
       ((p - 1) * int responsesPerPage) (p * int responsesPerPage - 1)"

text \<open>
  \<^verbatim>\<open>fetchResponses\<close>. Only \<^verbatim>\<open>count\<close> is read off the first response, its \<^verbatim>\<open>error\<close> is
  not looked at; \<^verbatim>\<open>setTotalResponses\<close> runs before the second request is sent. The
  second response's \<^verbatim>\<open>error\<close> is thrown; \<^verbatim>\<open>catch\<close> raises the toast and also
  catches a rejected promise of either request; \<^verbatim>\<open>finally\<close> clears \<^verbatim>\<open>loading\<close>.
\<close>

definition fetchResponses :: "dashboard \<Rightarrow> store \<Rightarrow> (dashboard, request) outcome" where
  "fetchResponses s st =
     (let s1 = s\<lparr>loading := True\<rparr> in
      case st CountQuery of
        Rejected \<Rightarrow>
          \<lparr> after = s1\<lparr>loading := False\<rparr>, issued = [CountQuery],
            toasts = [toast_error_loading] \<rparr>
      | Fulfilled c \<Rightarrow>
          (let s2 = s1\<lparr>totalResponses := or_zero (count c)\<rparr>;
               q = page_query (currentPage s)
           in case st q of
                Rejected \<Rightarrow>
                  \<lparr> after = s2\<lparr>loading := False\<rparr>, issued = [CountQuery, q],
                    toasts = [toast_error_loading] \<rparr>
              | Fulfilled r \<Rightarrow>
                  (case error r of
                     Some e \<Rightarrow>
                       \<lparr> after = s2\<lparr>loading := False\<rparr>, issued = [CountQuery, q],
                         toasts = [toast_error_loading] \<rparr>
                   | None \<Rightarrow>
                       \<lparr> after = s2\<lparr>responses := or_empty (data r), loading := False\<rparr>,
                         issued = [CountQuery, q], toasts = [] \<rparr>)))"

text \<open>What awaiting a request gave: a failure is a thrown promise or an \<^verbatim>\<open>error\<close>.\<close>

definition failed :: "'a response promise \<Rightarrow> bool" where
  "failed p = (case p of Fulfilled r \<Rightarrow> error r \<noteq> None | Rejected \<Rightarrow> True)"

text \<open>
  Modelled from the spec: the store's \<open>count\<close> and \<open>selectPage\<close> operations, which are
  not part of this repository. \<open>selectPage\<close> takes an inclusive zero-based range of the
  rows in the requested order; \<open>rows\<close> is the table already ordered by
  \<^verbatim>\<open>submitted_at\<close> descending. A range that reaches past the last row yields the rows
  there are.
\<close>

definition selectPage :: "'a list \<Rightarrow> int \<Rightarrow> int \<Rightarrow> 'a list" where
  "selectPage rows lo hi = take (nat (hi - lo + 1)) (drop (nat lo) rows)"

definition table_store :: "SurveyResponse list \<Rightarrow> store" where
  "table_store rows q =
     (case q of
        CountQuery \<Rightarrow> Fulfilled \<lparr> data = None, count = Some (length rows), error = None \<rparr>
      | RangeQuery col asc lo hi \<Rightarrow>
          Fulfilled \<lparr> data = Some (selectPage rows lo hi), count = None, error = None \<rparr>)"

subsection \<open>Pagination\<close>

text \<open>
  \<^verbatim>\<open>Math.ceil(totalResponses / responsesPerPage)\<close>. The quotient of the source is a
  double; for a count below \<open>2\<^sup>5\<^sup>3\<close> it lies between the same two integers as the exact
  quotient, so its ceiling is the ceiling of the exact quotient.
\<close>

definition totalPages :: "dashboard \<Rightarrow> int" where
  "totalPages s = \<lceil>real (totalResponses s) / real responsesPerPage\<rceil>"

text \<open>
  The three kinds of control of the pagination bar. The bar is not part of the loading
  screen nor of the empty view, and is rendered only when there is more than one page;
  the page links are those of \<^verbatim>\<open>Array.from({ length: totalPages }, (_, i) => i + 1)\<close>.
\<close>

datatype navigation = Previous | Next | Link int

definition page_links :: "dashboard \<Rightarrow> int list" where
  "page_links s = map (\<lambda>i. int i + 1) [0 ..< nat (totalPages s)]"

definition rendered :: "navigation \<Rightarrow> dashboard \<Rightarrow> bool" where
  "rendered nav s \<longleftrightarrow>
     \<not> (loading s \<and> length (responses s) = 0)
     \<and> length (responses s) \<noteq> 0 \<and> totalPages s > 1
     \<and> (case nav of Link page \<Rightarrow> page \<in> set (page_links s) | _ \<Rightarrow> True)"

text \<open>The argument of \<^verbatim>\<open>setCurrentPage\<close> in each \<^verbatim>\<open>onClick\<close>.\<close>

definition target :: "navigation \<Rightarrow> dashboard \<Rightarrow> int" where
  "target nav s =
     (case nav of
        Previous \<Rightarrow> max (currentPage s - 1) 1
      | Next \<Rightarrow> min (currentPage s + 1) (totalPages s)
      | Link page \<Rightarrow> page)"

text \<open>
  A click sets the page index. The effect with dependency \<^verbatim>\<open>[currentPage]\<close> runs
  \<^verbatim>\<open>fetchResponses\<close> only when the index has changed: setting a state to the value it
  has runs no effect. (The style sheet also takes the pointer off "previous" on page 1
  and off "next" on the last page; the handlers do not rely on it.)
\<close>

definition click :: "navigation \<Rightarrow> dashboard \<Rightarrow> store \<Rightarrow> (dashboard, request) outcome" where
  "click nav s st =
     (let p = target nav s in
      if p = currentPage s then \<lparr> after = s, issued = [], toasts = [] \<rparr>
      else fetchResponses (s\<lparr>currentPage := p\<rparr>) st)"

section \<open>Dashboard.tsx: the chart series\<close>

subsection \<open>The accumulator object\<close>

text \<open>
  The accumulator of each \<^verbatim>\<open>reduce\<close> is the plain object \<^verbatim>\<open>{}\<close>, whose prototype is
  \<^verbatim>\<open>Object.prototype\<close>. Its own properties are kept in the order of their creation. A
  value stored in it is a number (a count, far below the \<open>2\<^sup>5\<^sup>3\<close> up to which a double
  counts exactly), or the string that \<^verbatim>\<open>+ 1\<close> makes of a value that is not a number
  (the text of that string is the engine's, so only its kind is kept).
\<close>

datatype jsval = Num nat | Str

type_synonym jsobject = "(jsstring \<times> jsval) list"

text \<open>
  The property names every plain object inherits: the properties ECMAScript gives
  \<^verbatim>\<open>Object.prototype\<close>, with the accessor \<^verbatim>\<open>__proto__\<close> and the four legacy methods that
  every browser has. All but \<^verbatim>\<open>__proto__\<close> are functions.
\<close>

definition proto :: jsstring where
  "proto = js ''__proto__''"

definition Object_prototype_keys :: "jsstring list" where
  "Object_prototype_keys =
     [js ''constructor'', js ''__defineGetter__'', js ''__defineSetter__'',
      js ''hasOwnProperty'', js ''__lookupGetter__'', js ''__lookupSetter__'',
      js ''isPrototypeOf'', js ''propertyIsEnumerable'', js ''toString'', js ''valueOf'',
      proto, js ''toLocaleString'']"

text \<open>
  \<^verbatim>\<open>acc[k]\<close>: the own property, else the inherited one (a function, or for
  \<^verbatim>\<open>__proto__\<close> the prototype object itself), else \<^verbatim>\<open>undefined\<close>.
\<close>

datatype lookup = Undefined | Own jsval | Inherited

definition get_property :: "jsobject \<Rightarrow> jsstring \<Rightarrow> lookup" where
  "get_property acc k =
     (case map_of acc k of
        Some v \<Rightarrow> Own v
      | None \<Rightarrow> if k \<in> set Object_prototype_keys then Inherited else Undefined)"

text \<open>
  \<^verbatim>\<open>(v || 0) + 1\<close>. \<^verbatim>\<open>undefined\<close> and \<^verbatim>\<open>0\<close> are falsy and give \<^verbatim>\<open>1\<close>; a function, an
  object and a non-empty string are truthy, and \<^verbatim>\<open>+\<close> concatenates their text with
  \<^verbatim>\<open>"1"\<close>.
\<close>

fun plus_one :: "lookup \<Rightarrow> jsval" where
  "plus_one Undefined = Num 1"
| "plus_one (Own (Num n)) = Num (n + 1)"
| "plus_one (Own Str) = Str"
| "plus_one Inherited = Str"

text \<open>
  \<^verbatim>\<open>acc[k] = v\<close> for a number or a string \<^verbatim>\<open>v\<close>: an own property keeps its place, a new
  one goes last. Assigning to \<^verbatim>\<open>__proto__\<close> calls the inherited setter, which ignores a
  value that is neither an object nor \<^verbatim>\<open>null\<close>, so no own property is created.
\<close>

definition set_property :: "jsobject \<Rightarrow> jsstring \<Rightarrow> jsval \<Rightarrow> jsobject" where
  "set_property acc k v =
     (if map_of acc k = None \<and> k = proto then acc else AList.update k v acc)"

text \<open>The statement \<^verbatim>\<open>acc[k] = (acc[k] || 0) + 1\<close>.\<close>

definition increment :: "jsobject \<Rightarrow> jsstring \<Rightarrow> jsobject" where
  "increment acc k = set_property acc k (plus_one (get_property acc k))"

text \<open>
  An array index is the canonical decimal text of an integer from \<open>0\<close> to \<open>2\<^sup>3\<^sup>2 - 2\<close>:
  digits only, and no leading zero except for \<^verbatim>\<open>"0"\<close> itself.
\<close>

definition digit :: "16 word \<Rightarrow> nat option" where
  "digit c = (if 0x30 \<le> c \<and> c \<le> 0x39 then Some (unat c - 48) else None)"

fun decimal :: "jsstring \<Rightarrow> nat \<Rightarrow> nat option" where
  "decimal [] n = Some n"
| "decimal (c # cs) n =
     (case digit c of None \<Rightarrow> None | Some d \<Rightarrow> decimal cs (10 * n + d))"

definition array_index :: "jsstring \<Rightarrow> nat option" where
  "array_index k =
     (case k of
        [] \<Rightarrow> None
      | c # cs \<Rightarrow>
          if c = 0x30 \<and> cs \<noteq> [] then None
          else (case decimal k 0 of
                  None \<Rightarrow> None
                | Some n \<Rightarrow> if n \<le> 4294967294 then Some n else None))"

text \<open>
  \<^verbatim>\<open>Object.entries\<close> lists the own properties in the order of the own property keys:
  first the array indices in ascending numeric order, then the other strings in the
  order of their creation.
\<close>

definition indexed :: "jsobject \<Rightarrow> (nat \<times> jsstring \<times> jsval) list" where
  "indexed acc =
     List.map_filter (\<lambda>(k, v). map_option (\<lambda>i. (i, k, v)) (array_index k)) acc"

definition Object_entries :: "jsobject \<Rightarrow> (jsstring \<times> jsval) list" where
  "Object_entries acc =
     map snd (sort_key fst (indexed acc)) @ filter (\<lambda>(k, v). array_index k = None) acc"

subsection \<open>The four derivations\<close>

text \<open>
  An entry \<^verbatim>\<open>{ name, value }\<close> of a series is the pair of its name and its value, so the
  \<^verbatim>\<open>map\<close> of the first three derivations leaves the entries as they are.
\<close>

definition getAgeGroupData :: "SurveyResponse list \<Rightarrow> (jsstring \<times> jsval) list" where
  "getAgeGroupData rs =
     map (\<lambda>(name, val). (name, val))
       (Object_entries (foldl (\<lambda>acc r. increment acc (age_group r)) [] rs))"

definition getRecommendationData :: "SurveyResponse list \<Rightarrow> (jsstring \<times> jsval) list" where
  "getRecommendationData rs =
     map (\<lambda>(name, val). (name, val))
       (Object_entries (foldl (\<lambda>acc r. increment acc (recommend_telegram r)) [] rs))"

definition getUsageDurationData :: "SurveyResponse list \<Rightarrow> (jsstring \<times> jsval) list" where
  "getUsageDurationData rs =
     map (\<lambda>(name, val). (name, val))
       (Object_entries (foldl (\<lambda>acc r. increment acc (usage_duration r)) [] rs))"










subsection \<open>The series as the specification words them\<close>

text \<open>The distinct elements of a list in the order of their first occurrence.\<close>

fun first_seen :: "'a list \<Rightarrow> 'a list" where
  "first_seen [] = []"
| "first_seen (x # xs) = x # first_seen (filter (\<lambda>y. y \<noteq> x) xs)"

text \<open>The frequency of each literal value, in first-seen order.\<close>

definition frequencies :: "jsstring list \<Rightarrow> (jsstring \<times> jsval) list" where
  "frequencies ks = map (\<lambda>k. (k, Num (count_list ks k))) (first_seen ks)"

text \<open>
  A key that the accumulator object treats as a map would: it names no inherited
  property, and it is no array index.
\<close>

definition inherited :: "jsstring \<Rightarrow> bool" where
  "inherited k \<longleftrightarrow> k \<in> set Object_prototype_keys"

definition plain_key :: "jsstring \<Rightarrow> bool" where
  "plain_key k \<longleftrightarrow> \<not> inherited k \<and> array_index k = None"

text \<open>The options the survey form offers (\<^verbatim>\<open>Survey.tsx\<close>), as code units.\<close>

definition ageGroups :: "jsstring list" where
  "ageGroups =
     [js ''Under 18'', js ''18'' @ [0x2013] @ js ''24'', js ''25'' @ [0x2013] @ js ''34'',
      js ''35'' @ [0x2013] @ js ''44'', js ''45+'']"

definition usageDurations :: "jsstring list" where
  "usageDurations =
     [js ''Less than 6 months'', js ''6 months '' @ [0x2013] @ js '' 1 year'',
      js ''1'' @ [0x2013] @ js ''3 years'', js ''More than 3 years'']"

definition recommendOptions :: "jsstring list" where
  "recommendOptions = [js ''Yes'', js ''No'', js ''Maybe'']"

definition contentPreferences :: "jsstring list" where
  "contentPreferences =
     [[0xD83D, 0xDCFD] @ js '' Movies & Web Series'',
      [0xD83D, 0xDCDA] @ js '' E-books & Study Material'',
      [0xD83C, 0xDF93] @ js '' Educational Content'',
      [0xD83D, 0xDCF0] @ js '' News & Updates'',
      [0xD83D, 0xDCB8] @ js '' Job Alerts'',
      [0xD83C, 0xDFAE] @ js '' Gaming Tips'',
      [0xD83D, 0xDCAC] @ js '' Motivational Quotes'',
      [0xD83E, 0xDD16] @ js '' Useful Bots'',
      [0xD83D, 0xDCF1] @ js '' Tech Updates'',
      [0xD83C, 0xDFA7] @ js '' Music & Podcasts'']"

text \<open>
  The records the dashboard reads are those the survey form has inserted: the store has
  no other writer. In such a record the three single-valued fields hold options of the
  radio groups, and the content preferences are options of the check boxes.
\<close>

definition form_choices :: "SurveyResponse \<Rightarrow> bool" where
  "form_choices r \<longleftrightarrow>
     age_group r \<in> set ageGroups
     \<and> recommend_telegram r \<in> set recommendOptions
     \<and> usage_duration r \<in> set usageDurations"


text \<open>A fetched record with the given values in the fields the charts read.\<close>

definition response ::
  "jsstring \<Rightarrow> jsstring \<Rightarrow> jsstring \<Rightarrow> jsstring list \<Rightarrow> SurveyResponse" where
  "response age duration recommend contents =
     \<lparr> name = None, age_group = age, usage_duration = duration,
       usage_reason = [js ''To chat with friends''], content_preference = contents,
       regular_bots_or_channels = None, recommend_telegram = recommend,
       improvement_suggestions = None, id = js ''id'',
       submitted_at = js ''2025-01-01T00:00:00Z'' \<rparr>"



text \<open>The count an entry carries, and whether its value is a number at all.\<close>

definition amount :: "jsstring \<times> jsval \<Rightarrow> nat" where
  "amount e = (case snd e of Num n \<Rightarrow> n | Str \<Rightarrow> 0)"

definition numeric :: "jsstring \<times> jsval \<Rightarrow> bool" where
  "numeric e = (case snd e of Num n \<Rightarrow> True | Str \<Rightarrow> False)"

text \<open>
  A series tallies \<open>n\<close> records: its names are distinct, every value is a number that
  is at least one, and the values add up to \<open>n\<close>.
\<close>

definition tallies :: "(jsstring \<times> jsval) list \<Rightarrow> nat \<Rightarrow> bool" where
  "tallies series n \<longleftrightarrow>
     distinct (map fst series)
     \<and> (\<forall>e \<in> set series. numeric e \<and> 1 \<le> amount e)
     \<and> sum_list (map amount series) = n"


section \<open>Sample inputs\<close>

definition draft :: "jsstring list \<Rightarrow> jsstring \<Rightarrow> formData" where
  "draft reasons other =
     \<lparr> formData.name = [], formData.age_group = js ''45+'',
       formData.usage_duration = js ''More than 3 years'',
       formData.usage_reason = reasons,
       formData.content_preference = [js ''News''],
       formData.regular_bots_or_channels = [], formData.recommend_telegram = js ''Yes'',
       formData.improvement_suggestions = [], other_usage_reason = other \<rparr>"

definition editing :: "formData \<Rightarrow> survey" where
  "editing fd = \<lparr> formData = fd, isSubmitting = False \<rparr>"

definition accepting :: "survey_row \<Rightarrow> unit response promise" where
  "accepting row = Fulfilled \<lparr> data = None, count = None, error = None \<rparr>"

definition refusing :: "survey_row \<Rightarrow> unit response promise" where
  "refusing row = Fulfilled \<lparr> data = None, count = None, error = Some ''refused'' \<rparr>"

definition movies :: jsstring where
  "movies = [0xD83D, 0xDCFD] @ js '' Movies & Web Series''"

definition ebooks :: jsstring where
  "ebooks = [0xD83D, 0xDCDA] @ js '' E-books & Study Material''"

definition educational :: jsstring where
  "educational = [0xD83C, 0xDF93] @ js '' Educational Content''"

definition fifteen_rows :: "SurveyResponse list" where
  "fifteen_rows = replicate 15 (response (js ''45+'') (js ''More than 3 years'') (js ''Yes'') [movies])"

definition page_two :: dashboard where
  "page_two = \<lparr> responses = [], currentPage = 2, totalResponses = 15, loading = False \<rparr>"

definition throwing :: store where
  "throwing q = Rejected"

text \<open>A dashboard that shows one record of 25, on the page \<open>p\<close>.\<close>

definition showing :: "int \<Rightarrow> dashboard" where
  "showing p =
     \<lparr> responses = [response (js ''45+'') (js ''More than 3 years'') (js ''Yes'') [movies]],
       currentPage = p, totalResponses = 25, loading = False \<rparr>"

text \<open>A store that counts 30 rows and then fails the page request with an error.\<close>

definition page_failing :: store where
  "page_failing q =
     (case q of
        CountQuery \<Rightarrow> Fulfilled \<lparr> data = None, count = Some 30, error = None \<rparr>
      | RangeQuery col asc lo hi \<Rightarrow>
          Fulfilled \<lparr> data = None, count = None, error = Some ''timeout'' \<rparr>)"

text \<open>A store that fails the count request with an error and then serves an empty page.\<close>

definition count_failing :: store where
  "count_failing q =
     (case q of
        CountQuery \<Rightarrow> Fulfilled \<lparr> data = None, count = None, error = Some ''timeout'' \<rparr>
      | RangeQuery col asc lo hi \<Rightarrow>
          Fulfilled \<lparr> data = Some [], count = None, error = None \<rparr>)"

text \<open>Three records as the form submits them.\<close>

definition form_page :: "SurveyResponse list" where
  "form_page =
     [response (js ''45+'') (js ''More than 3 years'') (js ''Yes'') [educational, movies],
      response (js ''Under 18'') (js ''Less than 6 months'') (js ''Maybe'') [movies, ebooks],
      response (js ''45+'') (js ''More than 3 years'') (js ''Yes'') [ebooks]]"

section \<open>Survey.tsx: the submit action\<close>

lemma handleSubmit_complete:
  "complete (formData s) \<Longrightarrow>
   handleSubmit s insert_req =
     (if accepted (insert_req (insert_payload (formData s)))
      then \<lparr> after = s\<lparr>formData := emptyForm, isSubmitting := False\<rparr>,
             issued = [insert_payload (formData s)], toasts = [toast_thank_you] \<rparr>
      else \<lparr> after = s\<lparr>isSubmitting := False\<rparr>,
             issued = [insert_payload (formData s)], toasts = [toast_submission_failed] \<rparr>)"
  by (auto simp: handleSubmit_def complete_def accepted_def truthy_def Let_def
           split: promise.splits option.splits)

lemma complete_draft: "reasons \<noteq> [] \<Longrightarrow> complete (draft reasons other)"
  by (simp add: complete_def draft_def js_def)

text \<open>
  Claim C2. When the draft passes validation, its reasons contain \<open>Other\<close> and the scratch
  value is not empty, the one row handed to \<^verbatim>\<open>insert\<close> carries the reasons other than
  \<open>Other\<close> in their order, followed by the scratch value.
\<close>

theorem other_replaced_by_custom:
  assumes "complete (formData s)"
    and "Other \<in> set (formData.usage_reason (formData s))"
    and "other_usage_reason (formData s) \<noteq> []"
  shows "\<exists>row. issued (handleSubmit s insert_req) = [row]
           \<and> usage_reason row =
               filter (\<lambda>r. r \<noteq> Other) (formData.usage_reason (formData s))
                 @ [other_usage_reason (formData s)]"
  using assms
  by (simp add: handleSubmit_complete insert_payload_def finalUsageReasons_def truthy_def)

theorem other_replaced_by_custom_witness:
  "complete (formData (editing (draft [Other] (js ''Custom X''))))
   \<and> Other \<in> set (formData.usage_reason (formData (editing (draft [Other] (js ''Custom X'')))))
   \<and> other_usage_reason (formData (editing (draft [Other] (js ''Custom X'')))) \<noteq> []
   \<and> (\<exists>row. issued (handleSubmit (editing (draft [Other] (js ''Custom X''))) accepting) = [row]
           \<and> usage_reason row = [js ''Custom X''])"
proof -
  let ?s = "editing (draft [Other] (js ''Custom X''))"
  have a: "complete (formData ?s)" by (simp add: editing_def complete_draft)
  have b: "Other \<in> set (formData.usage_reason (formData ?s))"
    by (simp add: editing_def draft_def)
  have c: "other_usage_reason (formData ?s) \<noteq> []"
    by (simp add: editing_def draft_def js_def)
  have d: "filter (\<lambda>r. r \<noteq> Other) (formData.usage_reason (formData ?s))
             @ [other_usage_reason (formData ?s)] = [js ''Custom X'']"
    by (simp add: editing_def draft_def)
  from other_replaced_by_custom [OF a b c, of accepting] d
  have "\<exists>row. issued (handleSubmit ?s accepting) = [row] \<and> usage_reason row = [js ''Custom X'']"
    by simp
  with a b c show ?thesis by blast
qed

text \<open>
  Claim C4. A draft with an empty age group, usage duration or recommendation, or with no
  usage reason or no content preference, sends nothing to the store, leaves the
  component as it is and raises one destructive toast, "Missing fields" or
  "Missing selections".
\<close>

theorem submit_rejects_incomplete:
  assumes "formData.age_group (formData s) = [] \<or> formData.usage_duration (formData s) = []
           \<or> formData.recommend_telegram (formData s) = []
           \<or> formData.usage_reason (formData s) = []
           \<or> formData.content_preference (formData s) = []"
  shows "issued (handleSubmit s insert_req) = []
         \<and> after (handleSubmit s insert_req) = s
         \<and> (\<exists>t. toasts (handleSubmit s insert_req) = [t] \<and> destructive t
                \<and> (t = toast_missing_fields \<or> t = toast_missing_selections))"
  using assms
  by (auto simp: handleSubmit_def truthy_def Let_def toast_missing_fields_def
        toast_missing_selections_def)

theorem submit_rejects_incomplete_witness:
  "formData.content_preference (formData (editing ((draft [Other] [])\<lparr>formData.content_preference := []\<rparr>))) = []
   \<and> issued (handleSubmit (editing ((draft [Other] [])\<lparr>formData.content_preference := []\<rparr>)) accepting) = []
   \<and> after (handleSubmit (editing ((draft [Other] [])\<lparr>formData.content_preference := []\<rparr>)) accepting)
       = editing ((draft [Other] [])\<lparr>formData.content_preference := []\<rparr>)
   \<and> toasts (handleSubmit (editing ((draft [Other] [])\<lparr>formData.content_preference := []\<rparr>)) accepting)
       = [toast_missing_selections]"
proof -
  let ?s = "editing ((draft [Other] [])\<lparr>formData.content_preference := []\<rparr>)"
  have a: "formData.content_preference (formData ?s) = []" by (simp add: editing_def)
  then have h: "formData.age_group (formData ?s) = [] \<or> formData.usage_duration (formData ?s) = []
           \<or> formData.recommend_telegram (formData ?s) = []
           \<or> formData.usage_reason (formData ?s) = []
           \<or> formData.content_preference (formData ?s) = []" by blast
  have t: "toasts (handleSubmit ?s accepting) = [toast_missing_selections]"
    by (simp add: handleSubmit_def editing_def draft_def truthy_def js_def)
  from submit_rejects_incomplete [OF h, of accepting] a t show ?thesis by blast
qed

text \<open>
  Claim C6. For a draft that passes validation, one row is handed to \<^verbatim>\<open>insert\<close>. When the
  store accepts it, every field of the draft, the scratch value included, is empty
  afterwards; when the store rejects it, by an error or by a thrown promise, the draft
  is what it was.
\<close>

theorem submit_reset_or_preserve:
  assumes "complete (formData s)"
  shows "issued (handleSubmit s insert_req) = [insert_payload (formData s)]
         \<and> (accepted (insert_req (insert_payload (formData s))) \<longrightarrow>
              formData (after (handleSubmit s insert_req)) =
                \<lparr> formData.name = [], formData.age_group = [], formData.usage_duration = [],
                  formData.usage_reason = [], formData.content_preference = [],
                  formData.regular_bots_or_channels = [], formData.recommend_telegram = [],
                  formData.improvement_suggestions = [], other_usage_reason = [] \<rparr>)
         \<and> (\<not> accepted (insert_req (insert_payload (formData s))) \<longrightarrow>
              formData (after (handleSubmit s insert_req)) = formData s)"
  using assms by (simp add: handleSubmit_complete emptyForm_def)

theorem submit_reset_or_preserve_witness:
  "complete (formData (editing (draft [Other] (js ''Custom X''))))
   \<and> accepted (accepting (insert_payload (formData (editing (draft [Other] (js ''Custom X''))))))
   \<and> other_usage_reason (formData (after (handleSubmit (editing (draft [Other] (js ''Custom X''))) accepting))) = []
   \<and> formData.usage_reason (formData (after (handleSubmit (editing (draft [Other] (js ''Custom X''))) accepting))) = []
   \<and> \<not> accepted (refusing (insert_payload (formData (editing (draft [Other] (js ''Custom X''))))))
   \<and> formData (after (handleSubmit (editing (draft [Other] (js ''Custom X''))) refusing))
       = draft [Other] (js ''Custom X'')"
proof -
  let ?s = "editing (draft [Other] (js ''Custom X''))"
  have a: "complete (formData ?s)" by (simp add: editing_def complete_draft)
  have b: "accepted (accepting (insert_payload (formData ?s)))"
    by (simp add: accepted_def accepting_def)
  have c: "\<not> accepted (refusing (insert_payload (formData ?s)))"
    by (simp add: accepted_def refusing_def)
  have d: "formData ?s = draft [Other] (js ''Custom X'')" by (simp add: editing_def)
  from submit_reset_or_preserve [OF a, of accepting] b
  have e: "other_usage_reason (formData (after (handleSubmit ?s accepting))) = []
           \<and> formData.usage_reason (formData (after (handleSubmit ?s accepting))) = []"
    by simp
  from submit_reset_or_preserve [OF a, of refusing] c d
  have f: "formData (after (handleSubmit ?s refusing)) = draft [Other] (js ''Custom X'')"
    by simp
  from a b c e f show ?thesis by blast
qed

text \<open>
  Claim C9. When the draft passes validation, its reasons contain \<open>Other\<close> and the scratch
  value is empty, the one row handed to \<^verbatim>\<open>insert\<close> carries the reasons as they are,
  the string \<open>Other\<close> among them.
\<close>

theorem other_kept_verbatim:
  assumes "complete (formData s)"
    and "Other \<in> set (formData.usage_reason (formData s))"
    and "other_usage_reason (formData s) = []"
  shows "\<exists>row. issued (handleSubmit s insert_req) = [row]
           \<and> usage_reason row = formData.usage_reason (formData s)
           \<and> Other \<in> set (usage_reason row)"
  using assms
  by (simp add: handleSubmit_complete insert_payload_def finalUsageReasons_def truthy_def)

theorem other_kept_verbatim_witness:
  "complete (formData (editing (draft [js ''To chat with friends'', Other] [])))
   \<and> Other \<in> set (formData.usage_reason (formData (editing (draft [js ''To chat with friends'', Other] []))))
   \<and> other_usage_reason (formData (editing (draft [js ''To chat with friends'', Other] []))) = []
   \<and> (\<exists>row. issued (handleSubmit (editing (draft [js ''To chat with friends'', Other] [])) accepting) = [row]
           \<and> usage_reason row = [js ''To chat with friends'', Other])"
proof -
  let ?s = "editing (draft [js ''To chat with friends'', Other] [])"
  have a: "complete (formData ?s)" by (simp add: editing_def complete_draft)
  have b: "Other \<in> set (formData.usage_reason (formData ?s))"
    by (simp add: editing_def draft_def)
  have c: "other_usage_reason (formData ?s) = []" by (simp add: editing_def draft_def)
  have d: "formData.usage_reason (formData ?s) = [js ''To chat with friends'', Other]"
    by (simp add: editing_def draft_def)
  from other_kept_verbatim [OF a b c, of accepting] d
  have "\<exists>row. issued (handleSubmit ?s accepting) = [row]
          \<and> usage_reason row = [js ''To chat with friends'', Other]"
    by auto
  with a b c show ?thesis by blast
qed

section \<open>Dashboard.tsx: fetching and pagination\<close>

lemma fetch_issued:
  "issued (fetchResponses s st) =
     (case st CountQuery of
        Rejected \<Rightarrow> [CountQuery]
      | Fulfilled c \<Rightarrow> [CountQuery, page_query (currentPage s)])"
  by (simp add: fetchResponses_def Let_def split: promise.splits option.splits)

lemma page_query_offsets:
  "page_query p = RangeQuery ''submitted_at'' False ((p - 1) * 10) (p * 10 - 1)"
  by (simp add: page_query_def responsesPerPage_def)

lemma fetch_table_store:
  "fetchResponses s (table_store rows) =
     \<lparr> after = s\<lparr>totalResponses := length rows,
                   responses := selectPage rows ((currentPage s - 1) * 10) (currentPage s * 10 - 1),
                   loading := False\<rparr>,
       issued = [CountQuery, page_query (currentPage s)], toasts = [] \<rparr>"
  by (simp add: fetchResponses_def Let_def table_store_def page_query_offsets or_zero_def
        or_empty_def)

lemma length_fifteen_rows: "length fifteen_rows = 15"
  by (simp add: fifteen_rows_def)

text \<open>
  Claim C1 (amended). Whenever awaiting the count request does not throw, a fetch sends, after
  the count query, exactly one range query, ordered by \<^verbatim>\<open>submitted_at\<close> descending,
  from \<open>(p - 1) * 10\<close> to \<open>p * 10 - 1\<close> for the page index \<open>p\<close>. On page 2 the range is
  \<open>10\<close> to \<open>19\<close>, and a store of 15 rows that serves inclusive ranges answers it with
  the 5 rows from offset 10 on.
\<close>

theorem fetch_range_offsets:
  "(st CountQuery \<noteq> Rejected \<longrightarrow>
      issued (fetchResponses s st) =
        [CountQuery,
         RangeQuery ''submitted_at'' False ((currentPage s - 1) * 10) (currentPage s * 10 - 1)])
   \<and> (currentPage s = 2 \<and> length rows = 15 \<longrightarrow>
        issued (fetchResponses s (table_store rows)) =
          [CountQuery, RangeQuery ''submitted_at'' False 10 19]
        \<and> responses (after (fetchResponses s (table_store rows))) = drop 10 rows
        \<and> length (responses (after (fetchResponses s (table_store rows)))) = 5)"
proof -
  have "st CountQuery \<noteq> Rejected \<longrightarrow>
      issued (fetchResponses s st) =
        [CountQuery,
         RangeQuery ''submitted_at'' False ((currentPage s - 1) * 10) (currentPage s * 10 - 1)]"
    by (simp add: fetch_issued page_query_offsets split: promise.splits)
  moreover have "currentPage s = 2 \<and> length rows = 15 \<longrightarrow>
        issued (fetchResponses s (table_store rows)) =
          [CountQuery, RangeQuery ''submitted_at'' False 10 19]
        \<and> responses (after (fetchResponses s (table_store rows))) = drop 10 rows
        \<and> length (responses (after (fetchResponses s (table_store rows)))) = 5"
    by (simp add: fetch_table_store page_query_offsets selectPage_def)
  ultimately show ?thesis by blast
qed

theorem fetch_range_offsets_witness:
  "table_store fifteen_rows CountQuery \<noteq> Rejected
   \<and> currentPage page_two = 2 \<and> length fifteen_rows = 15
   \<and> issued (fetchResponses page_two (table_store fifteen_rows)) =
        [CountQuery, RangeQuery ''submitted_at'' False 10 19]
   \<and> length (responses (after (fetchResponses page_two (table_store fifteen_rows)))) = 5"
proof -
  have a: "table_store fifteen_rows CountQuery \<noteq> Rejected" by (simp add: table_store_def)
  have b: "currentPage page_two = 2" by (simp add: page_two_def)
  note c = length_fifteen_rows
  from fetch_range_offsets [of "table_store fifteen_rows" page_two fifteen_rows] a b c
  show ?thesis by simp
qed

theorem fetch_page_two_not_10_14:
  "issued (fetchResponses page_two (table_store fifteen_rows)) =
     [CountQuery, RangeQuery ''submitted_at'' False 10 19]
   \<and> RangeQuery ''submitted_at'' False 10 14
       \<notin> set (issued (fetchResponses page_two (table_store fifteen_rows)))
   \<and> issued (fetchResponses page_two throwing) = [CountQuery]"
  by (simp add: fetch_issued page_query_offsets table_store_def page_two_def throwing_def)

text \<open>
  Claim C5 (amended). Whenever awaiting the count request does not throw, the page request is
  sent whatever the count response carries, and the loading indicator ends cleared. If
  the page request then fails, one error toast is raised and the record page is what it
  was, while the total count is already the one the count response delivered. If
  awaiting the count request throws, one error toast is raised, no page request is
  sent, and total count and record page are what they were, with the loading indicator
  cleared.
\<close>

theorem fetch_failure_effects:
  "(st CountQuery = Fulfilled c \<longrightarrow>
      issued (fetchResponses s st) = [CountQuery, page_query (currentPage s)]
      \<and> loading (after (fetchResponses s st)) = False
      \<and> (failed (st (page_query (currentPage s))) \<longrightarrow>
           toasts (fetchResponses s st) = [toast_error_loading]
           \<and> responses (after (fetchResponses s st)) = responses s
           \<and> (error c = None \<longrightarrow>
                totalResponses (after (fetchResponses s st)) = or_zero (count c))))
   \<and> (st CountQuery = Rejected \<longrightarrow>
        issued (fetchResponses s st) = [CountQuery]
        \<and> toasts (fetchResponses s st) = [toast_error_loading]
        \<and> responses (after (fetchResponses s st)) = responses s
        \<and> totalResponses (after (fetchResponses s st)) = totalResponses s
        \<and> loading (after (fetchResponses s st)) = False)"
proof -
  have "st CountQuery = Fulfilled c \<longrightarrow>
      issued (fetchResponses s st) = [CountQuery, page_query (currentPage s)]
      \<and> loading (after (fetchResponses s st)) = False
      \<and> (failed (st (page_query (currentPage s))) \<longrightarrow>
           toasts (fetchResponses s st) = [toast_error_loading]
           \<and> responses (after (fetchResponses s st)) = responses s
           \<and> (error c = None \<longrightarrow>
                totalResponses (after (fetchResponses s st)) = or_zero (count c)))"
    by (cases "st (page_query (currentPage s))")
       (auto simp: fetchResponses_def Let_def failed_def split: option.splits)
  moreover have "st CountQuery = Rejected \<longrightarrow>
        issued (fetchResponses s st) = [CountQuery]
        \<and> toasts (fetchResponses s st) = [toast_error_loading]
        \<and> responses (after (fetchResponses s st)) = responses s
        \<and> totalResponses (after (fetchResponses s st)) = totalResponses s
        \<and> loading (after (fetchResponses s st)) = False"
    by (simp add: fetchResponses_def)
  ultimately show ?thesis by blast
qed

theorem fetch_failure_effects_witness:
  "page_failing CountQuery = Fulfilled \<lparr> data = None, count = Some 30, error = None \<rparr>
   \<and> failed (page_failing (page_query (currentPage (showing 1))))
   \<and> toasts (fetchResponses (showing 1) page_failing) = [toast_error_loading]
   \<and> responses (after (fetchResponses (showing 1) page_failing)) = responses (showing 1)
   \<and> totalResponses (after (fetchResponses (showing 1) page_failing)) = 30
   \<and> loading (after (fetchResponses (showing 1) page_failing)) = False
   \<and> throwing CountQuery = Rejected
   \<and> issued (fetchResponses (showing 1) throwing) = [CountQuery]
   \<and> toasts (fetchResponses (showing 1) throwing) = [toast_error_loading]
   \<and> totalResponses (after (fetchResponses (showing 1) throwing)) = 25"
proof -
  let ?c = "\<lparr> data = None, count = Some 30, error = None \<rparr> :: SurveyResponse list response"
  have a: "page_failing CountQuery = Fulfilled ?c" by (simp add: page_failing_def)
  have b: "failed (page_failing (page_query (currentPage (showing 1))))"
    by (simp add: page_failing_def page_query_offsets failed_def)
  have c: "throwing CountQuery = Rejected" by (simp add: throwing_def)
  have d: "totalResponses (showing 1) = 25" by (simp add: showing_def)
  from fetch_failure_effects [of page_failing ?c "showing 1"] a b
  have e: "toasts (fetchResponses (showing 1) page_failing) = [toast_error_loading]
     \<and> responses (after (fetchResponses (showing 1) page_failing)) = responses (showing 1)
     \<and> totalResponses (after (fetchResponses (showing 1) page_failing)) = 30
     \<and> loading (after (fetchResponses (showing 1) page_failing)) = False"
    by (simp add: or_zero_def)
  from fetch_failure_effects [of throwing ?c "showing 1"] c d
  have f: "issued (fetchResponses (showing 1) throwing) = [CountQuery]
     \<and> toasts (fetchResponses (showing 1) throwing) = [toast_error_loading]
     \<and> totalResponses (after (fetchResponses (showing 1) throwing)) = 25"
    by simp
  from a b c e f show ?thesis by blast
qed

theorem fetch_failure_changes_total:
  "failed (page_failing (page_query (currentPage (showing 1))))
   \<and> totalResponses (showing 1) = 25
   \<and> totalResponses (after (fetchResponses (showing 1) page_failing)) = 30
   \<and> failed (count_failing CountQuery)
   \<and> toasts (fetchResponses (showing 1) count_failing) = []
   \<and> totalResponses (after (fetchResponses (showing 1) count_failing)) = 0
   \<and> responses (showing 1) \<noteq> []
   \<and> responses (after (fetchResponses (showing 1) count_failing)) = []"
  by (simp add: fetchResponses_def Let_def page_failing_def count_failing_def showing_def
        page_query_offsets failed_def or_zero_def or_empty_def)

lemma totalPages_div: "totalPages s = (int (totalResponses s) + 9) div 10"
proof -
  have "\<lceil>real (totalResponses s) / 10\<rceil>
        = \<lceil>of_int (int (totalResponses s)) / (of_int 10 :: real)\<rceil>"
    by simp
  also have "\<dots> = - (- int (totalResponses s) div 10)"
    by (rule ceiling_divide_eq_div)
  also have "\<dots> = (int (totalResponses s) + 9) div 10"
    by presburger
  finally show ?thesis
    by (simp add: totalPages_def responsesPerPage_def)
qed

lemma target_in_range:
  assumes "rendered nav s" "1 \<le> currentPage s" "currentPage s \<le> totalPages s"
  shows "1 \<le> target nav s \<and> target nav s \<le> totalPages s"
  using assms by (auto simp: rendered_def target_def page_links_def split: navigation.splits)

lemma click_issued:
  "issued (click nav s st) = [] \<or> issued (click nav s st) = [CountQuery]
   \<or> issued (click nav s st) = [CountQuery, page_query (target nav s)]"
  by (simp add: click_def Let_def fetch_issued split: promise.splits)

text \<open>
  Claim C8. The number of pages is the least \<open>k\<close> with \<open>n \<le> 10 * k\<close> for the total count
  \<open>n\<close>, which is \<open>ceil (n / 10)\<close>. From a page index within 1 and the number of pages,
  every control the pagination bar renders sets an index within the same bounds;
  "previous" on page 1 and "next" on the last page change nothing and send nothing; and
  any range query a click sends starts at an offset below the total count.
\<close>

theorem pagination_in_range:
  "totalPages s = (int (totalResponses s) + 9) div 10
   \<and> int (totalResponses s) \<le> 10 * totalPages s
   \<and> 10 * (totalPages s - 1) < int (totalResponses s)
   \<and> (rendered nav s \<and> 1 \<le> currentPage s \<and> currentPage s \<le> totalPages s \<longrightarrow>
        1 \<le> target nav s \<and> target nav s \<le> totalPages s
        \<and> currentPage (after (click nav s st)) = target nav s
        \<and> (nav = Previous \<and> currentPage s = 1 \<or> nav = Next \<and> currentPage s = totalPages s
             \<longrightarrow> click nav s st = \<lparr> after = s, issued = [], toasts = [] \<rparr>)
        \<and> (\<forall>col asc lo hi. RangeQuery col asc lo hi \<in> set (issued (click nav s st))
             \<longrightarrow> lo = (target nav s - 1) * 10 \<and> 0 \<le> lo \<and> lo < int (totalResponses s)))"
proof -
  have ceil: "int (totalResponses s) \<le> 10 * totalPages s
         \<and> 10 * (totalPages s - 1) < int (totalResponses s)"
    unfolding totalPages_div by presburger
  have cur: "currentPage (after (click nav s st)) = target nav s"
    by (simp add: click_def Let_def fetchResponses_def split: promise.splits option.splits)
  have noop: "nav = Previous \<and> currentPage s = 1 \<or> nav = Next \<and> currentPage s = totalPages s
              \<longrightarrow> click nav s st = \<lparr> after = s, issued = [], toasts = [] \<rparr>"
    by (auto simp: click_def target_def Let_def)
  have q: "\<forall>col asc lo hi. RangeQuery col asc lo hi \<in> set (issued (click nav s st))
              \<longrightarrow> lo = (target nav s - 1) * 10 \<and> 0 \<le> lo \<and> lo < int (totalResponses s)"
    if rng: "1 \<le> target nav s \<and> target nav s \<le> totalPages s"
  proof -
    have "0 \<le> (target nav s - 1) * 10 \<and> (target nav s - 1) * 10 < int (totalResponses s)"
      using ceil rng by auto
    with click_issued [of nav s st] show ?thesis
      by (auto simp: page_query_offsets)
  qed
  from ceil cur noop q target_in_range [of nav s] totalPages_div [of s]
  show ?thesis by blast
qed

lemma totalPages_showing: "totalPages (showing p) = 3"
  by (simp add: totalPages_div showing_def)

theorem pagination_in_range_witness:
  "rendered Next (showing 3) \<and> 1 \<le> currentPage (showing 3)
   \<and> currentPage (showing 3) \<le> totalPages (showing 3)
   \<and> totalPages (showing 3) = 3
   \<and> target Next (showing 3) \<le> 3
   \<and> click Next (showing 3) (table_store fifteen_rows)
       = \<lparr> after = showing 3, issued = [], toasts = [] \<rparr>"
proof -
  have a: "rendered Next (showing 3)"
    by (simp add: rendered_def totalPages_showing) (simp add: showing_def)
  have b: "1 \<le> currentPage (showing 3)" by (simp add: showing_def)
  have c: "currentPage (showing 3) \<le> totalPages (showing 3)"
    by (simp add: totalPages_showing) (simp add: showing_def)
  have d: "totalPages (showing 3) = 3" by (rule totalPages_showing)
  have e: "currentPage (showing 3) = totalPages (showing 3)"
    by (simp add: totalPages_showing) (simp add: showing_def)
  from pagination_in_range [of "showing 3" Next "table_store fifteen_rows"] a b c d e
  have "target Next (showing 3) \<le> 3
        \<and> click Next (showing 3) (table_store fifteen_rows)
            = \<lparr> after = showing 3, issued = [], toasts = [] \<rparr>"
    by simp
  with a b c d show ?thesis by blast
qed

section \<open>Dashboard.tsx: the chart series\<close>

subsection \<open>The accumulator on keys that name no inherited property\<close>

lemma set_first_seen [simp]: "set (first_seen xs) = set xs"
  by (induction xs rule: first_seen.induct) auto

lemma distinct_first_seen [simp]: "distinct (first_seen xs)"
  by (induction xs rule: first_seen.induct) (auto simp: set_first_seen)

lemma first_seen_snoc:
  "first_seen (xs @ [k]) = (if k \<in> set xs then first_seen xs else first_seen xs @ [k])"
  by (induction xs rule: first_seen.induct) auto

lemma update_keyed_new:
  "k \<notin> set ds \<Longrightarrow>
   AList.update k v (map (\<lambda>d. (d, g d)) ds) = map (\<lambda>d. (d, g d)) ds @ [(k, v)]"
  by (induction ds) auto

lemma update_keyed_old:
  "k \<in> set ds \<Longrightarrow> distinct ds \<Longrightarrow>
   AList.update k v (map (\<lambda>d. (d, g d)) ds) = map (\<lambda>d. (d, if d = k then v else g d)) ds"
  by (induction ds) (auto simp: update_keyed_new)

lemma map_of_frequencies:
  "map_of (frequencies ks) k = (if k \<in> set ks then Some (Num (count_list ks k)) else None)"
  by (simp add: frequencies_def map_of_map_restrict restrict_map_def set_first_seen)

lemma proto_inherited: "inherited proto"
  by (simp add: inherited_def Object_prototype_keys_def)

lemma increment_frequencies:
  assumes "\<not> inherited k"
  shows "increment (frequencies ks) k = frequencies (ks @ [k])"
proof -
  have np: "k \<noteq> proto" using assms proto_inherited by auto
  show ?thesis
  proof (cases "k \<in> set ks")
    case True
    then have "increment (frequencies ks) k
        = AList.update k (Num (count_list ks k + 1))
            (map (\<lambda>d. (d, Num (count_list ks d))) (first_seen ks))"
      by (simp add: increment_def get_property_def set_property_def map_of_frequencies)
         (simp add: frequencies_def)
    also have "\<dots> = map (\<lambda>d. (d, if d = k then Num (count_list ks k + 1)
                                  else Num (count_list ks d))) (first_seen ks)"
      using True by (simp add: update_keyed_old set_first_seen distinct_first_seen)
    also have "\<dots> = frequencies (ks @ [k])"
      using True by (auto simp: frequencies_def first_seen_snoc)
    finally show ?thesis .
  next
    case False
    then have "increment (frequencies ks) k
        = AList.update k (Num 1) (map (\<lambda>d. (d, Num (count_list ks d))) (first_seen ks))"
      using assms np
      by (simp add: increment_def get_property_def set_property_def map_of_frequencies
            inherited_def)
         (simp add: frequencies_def)
    also have "\<dots> = map (\<lambda>d. (d, Num (count_list ks d))) (first_seen ks) @ [(k, Num 1)]"
      using False by (simp add: update_keyed_new set_first_seen)
    also have "\<dots> = frequencies (ks @ [k])"
      using False by (auto simp: frequencies_def first_seen_snoc)
    finally show ?thesis .
  qed
qed

lemma foldl_increment:
  "\<forall>k \<in> set ks. \<not> inherited k \<Longrightarrow> foldl increment [] ks = frequencies ks"
proof (induction ks rule: rev_induct)
  case Nil
  show ?case by (simp add: frequencies_def)
next
  case (snoc k ks)
  then show ?case by (simp add: increment_frequencies)
qed

lemma foldl_field:
  "foldl (\<lambda>acc r. increment acc (f r)) acc rs = foldl increment acc (map f rs)"
  by (induction rs arbitrary: acc) auto

lemma field_frequencies:
  assumes "\<forall>r \<in> set rs. \<not> inherited (f r)"
  shows "foldl (\<lambda>acc r. increment acc (f r)) [] rs = frequencies (map f rs)"
proof -
  have "foldl increment [] (map f rs) = frequencies (map f rs)"
    using assms by (intro foldl_increment) simp
  with foldl_field [of f "[]" rs] show ?thesis by (rule trans)
qed

lemma entries_unchanged: "map (\<lambda>(name, val). (name, val)) es = es"
  by (induction es) auto

subsection \<open>The order of \<^verbatim>\<open>Object.entries\<close>\<close>

lemma indexed_nil:
  "\<forall>(k, v) \<in> set acc. array_index k = None \<Longrightarrow> indexed acc = []"
  by (induction acc) (auto simp: indexed_def)

lemma Object_entries_plain:
  assumes "\<forall>(k, v) \<in> set acc. array_index k = None"
  shows "Object_entries acc = acc"
proof -
  have "filter (\<lambda>(k, v). array_index k = None) acc = acc"
    using assms by (induction acc) auto
  with indexed_nil [OF assms] show ?thesis by (simp add: Object_entries_def)
qed

lemma indexed_snd:
  "map snd (indexed acc) = filter (\<lambda>(k, v). array_index k \<noteq> None) acc"
  by (induction acc) (auto simp: indexed_def split: option.splits)

lemma mset_Object_entries: "mset (Object_entries acc) = mset acc"
proof -
  have "mset (map snd (sort_key fst (indexed acc))) = mset (map snd (indexed acc))"
    by (simp only: mset_map mset_sort)
  then have "mset (Object_entries acc)
      = mset (filter (\<lambda>(k, v). array_index k \<noteq> None) acc)
        + mset (filter (\<lambda>(k, v). array_index k = None) acc)"
    by (simp add: Object_entries_def indexed_snd)
  also have "\<dots> = mset acc"
    by (induction acc) auto
  finally show ?thesis .
qed

lemma entries_first_seen:
  assumes "\<forall>r \<in> set rs. plain_key (f r)"
  shows "map (\<lambda>(name, val). (name, val))
           (Object_entries (foldl (\<lambda>acc r. increment acc (f r)) [] rs))
         = frequencies (map f rs)"
proof -
  have "foldl (\<lambda>acc r. increment acc (f r)) [] rs = frequencies (map f rs)"
    using assms by (intro field_frequencies) (simp add: plain_key_def)
  moreover have "\<forall>(k, v) \<in> set (frequencies (map f rs)). array_index k = None"
    using assms by (auto simp: frequencies_def plain_key_def set_first_seen)
  ultimately show ?thesis by (simp add: Object_entries_plain entries_unchanged)
qed

subsection \<open>The options of the form as keys\<close>

lemmas series_defs = getAgeGroupData_def getRecommendationData_def getUsageDurationData_def
  response_def js_def increment_def get_property_def set_property_def
  Object_prototype_keys_def proto_def Object_entries_def indexed_def array_index_def digit_def
  frequencies_def plain_key_def inherited_def

lemma form_options_plain:
  "list_all plain_key (ageGroups @ recommendOptions @ usageDurations @ contentPreferences)"
  by (simp add: ageGroups_def recommendOptions_def usageDurations_def contentPreferences_def
        series_defs)

lemma form_choices_plain:
  assumes "form_choices r"
  shows "plain_key (age_group r) \<and> plain_key (recommend_telegram r)
         \<and> plain_key (usage_duration r)"
proof -
  have "\<forall>k \<in> set (ageGroups @ recommendOptions @ usageDurations @ contentPreferences).
          plain_key k"
    using form_options_plain by (simp only: list_all_iff)
  with assms show ?thesis by (auto simp: form_choices_def)
qed


lemma form_page_choices: "list_all form_choices form_page"
  by (simp add: form_page_def form_choices_def response_def ageGroups_def
        recommendOptions_def usageDurations_def js_def)

lemma form_page_frequencies:
  "frequencies (map age_group form_page) = [(js ''45+'', Num 2), (js ''Under 18'', Num 1)]
   \<and> frequencies (map recommend_telegram form_page) = [(js ''Yes'', Num 2), (js ''Maybe'', Num 1)]
   \<and> frequencies (map usage_duration form_page)
       = [(js ''More than 3 years'', Num 2), (js ''Less than 6 months'', Num 1)]"
  by (simp add: form_page_def series_defs)

text \<open>
  Claim C7. For every page of records as the form writes them, each of the three series
  (age group, recommendation, usage duration) lists the literal values of its field in
  the order of their first occurrence on the page, each with the number of its
  occurrences; nothing is sorted.
\<close>

theorem series_first_seen_order:
  assumes "\<forall>r \<in> set rs. form_choices r"
  shows "getAgeGroupData rs = frequencies (map age_group rs)
         \<and> getRecommendationData rs = frequencies (map recommend_telegram rs)
         \<and> getUsageDurationData rs = frequencies (map usage_duration rs)"
proof -
  have "\<forall>r \<in> set rs. plain_key (age_group r)"
    and "\<forall>r \<in> set rs. plain_key (recommend_telegram r)"
    and "\<forall>r \<in> set rs. plain_key (usage_duration r)"
    using assms form_choices_plain by blast+
  then show ?thesis
    unfolding getAgeGroupData_def getRecommendationData_def getUsageDurationData_def
    by (simp only: entries_first_seen)
qed

theorem series_first_seen_order_witness:
  "list_all form_choices form_page
   \<and> map age_group form_page = [js ''45+'', js ''Under 18'', js ''45+'']
   \<and> getAgeGroupData form_page = [(js ''45+'', Num 2), (js ''Under 18'', Num 1)]
   \<and> getRecommendationData form_page = [(js ''Yes'', Num 2), (js ''Maybe'', Num 1)]
   \<and> getUsageDurationData form_page
       = [(js ''More than 3 years'', Num 2), (js ''Less than 6 months'', Num 1)]"
proof -
  note a = form_page_choices
  then have h: "\<forall>r \<in> set form_page. form_choices r" by (simp only: list_all_iff)
  have b: "map age_group form_page = [js ''45+'', js ''Under 18'', js ''45+'']"
    by (simp add: form_page_def response_def)
  from series_first_seen_order [OF h] form_page_frequencies
  have c: "getAgeGroupData form_page = [(js ''45+'', Num 2), (js ''Under 18'', Num 1)]
     \<and> getRecommendationData form_page = [(js ''Yes'', Num 2), (js ''Maybe'', Num 1)]
     \<and> getUsageDurationData form_page
         = [(js ''More than 3 years'', Num 2), (js ''Less than 6 months'', Num 1)]"
    by simp
  from a b c show ?thesis by blast
qed

subsection \<open>What a series adds up to\<close>

lemma sum_list_frequencies: "sum_list (map amount (frequencies ks)) = length ks"
proof -
  have "sum_list (map amount (frequencies ks)) = sum_list (map (count_list ks) (first_seen ks))"
    by (simp add: frequencies_def amount_def comp_def)
  also have "\<dots> = sum (count_list ks) (set (first_seen ks))"
    by (simp add: sum_list_distinct_conv_sum_set)
  also have "\<dots> = length ks"
    by (simp add: sum_count_set)
  finally show ?thesis .
qed

lemma tallies_frequencies: "tallies (frequencies ks) (length ks)"
  unfolding tallies_def
proof (intro conjI ballI)
  show "distinct (map fst (frequencies ks))"
    by (simp add: frequencies_def comp_def)
  show "sum_list (map amount (frequencies ks)) = length ks"
    by (rule sum_list_frequencies)
next
  fix e assume "e \<in> set (frequencies ks)"
  then obtain k where "k \<in> set ks" "e = (k, Num (count_list ks k))"
    by (auto simp: frequencies_def)
  then show "numeric e" "1 \<le> amount e"
    by (auto simp: numeric_def amount_def Suc_le_eq zero_less_iff_neq_zero count_list_0_iff)
qed

lemma tallies_mset:
  assumes "mset xs = mset ys" "tallies ys n"
  shows "tallies xs n"
proof -
  have m: "mset (map fst xs) = mset (map fst ys)" "mset (map amount xs) = mset (map amount ys)"
    using assms(1) by (metis mset_map)+
  have "distinct (map fst xs)"
    using m(1) assms(2) by (metis tallies_def mset_eq_imp_distinct_iff)
  moreover have "set xs = set ys" using assms(1) by (rule mset_eq_setD)
  moreover have "sum_list (map amount xs) = sum_list (map amount ys)"
    using m(2) by (metis sum_mset_sum_list)
  ultimately show ?thesis using assms(2) by (simp add: tallies_def)
qed

lemma entries_tallies:
  assumes "\<forall>r \<in> set rs. \<not> inherited (f r)"
  shows "tallies (map (\<lambda>(name, val). (name, val))
           (Object_entries (foldl (\<lambda>acc r. increment acc (f r)) [] rs))) (length rs)"
proof -
  have "tallies (Object_entries (frequencies (map f rs))) (length rs)"
    using tallies_mset [OF mset_Object_entries tallies_frequencies [of "map f rs"]] by simp
  then show ?thesis
    by (simp add: field_frequencies [OF assms] entries_unchanged)
qed

text \<open>
  Claim C10. For every page of records as the form writes them, each of the three series
  (age group, recommendation, usage duration) has distinct names, every value is a
  number that is at least 1, and the values add up to the number of records of the page.
\<close>

theorem series_tallies_page:
  assumes "\<forall>r \<in> set rs. form_choices r"
  shows "tallies (getAgeGroupData rs) (length rs)
         \<and> tallies (getRecommendationData rs) (length rs)
         \<and> tallies (getUsageDurationData rs) (length rs)"
proof -
  have "\<forall>r \<in> set rs. \<not> inherited (age_group r)"
    and "\<forall>r \<in> set rs. \<not> inherited (recommend_telegram r)"
    and "\<forall>r \<in> set rs. \<not> inherited (usage_duration r)"
    using assms form_choices_plain by (auto simp: plain_key_def)
  then show ?thesis
    unfolding getAgeGroupData_def getRecommendationData_def getUsageDurationData_def
    by (simp only: entries_tallies simp_thms)
qed

theorem series_tallies_page_witness:
  "list_all form_choices form_page
   \<and> length form_page = 3
   \<and> tallies (getAgeGroupData form_page) 3
   \<and> tallies (getRecommendationData form_page) 3
   \<and> tallies (getUsageDurationData form_page) 3
   \<and> map amount (getAgeGroupData form_page) = [2, 1]"
proof -
  note a = form_page_choices
  then have h: "\<forall>r \<in> set form_page. form_choices r" by (simp only: list_all_iff)
  have c: "length form_page = 3" by (simp add: form_page_def)
  from series_tallies_page [OF h] c
  have d: "tallies (getAgeGroupData form_page) 3
     \<and> tallies (getRecommendationData form_page) 3
     \<and> tallies (getUsageDurationData form_page) 3"
    by simp
  have e: "map amount (getAgeGroupData form_page) = [2, 1]"
    by (simp add: form_page_def series_defs amount_def)
  from a c d e show ?thesis by blast
qed

subsection \<open>The content preferences\<close>


















end
